theory Spec2Isabelle
  imports Complex_Main
begin

section \<open>Floating-point scalars\<close>

text \<open>
  The program computes with IEEE-754 binary64 numbers. A value is modelled as a finite
  real or one of the three special values. Finite arithmetic is exact: the rounding of a
  finite result, its overflow to an infinity and its underflow to zero are not
  represented (the overflow is, in \<open>transmission_coefficient_b64\<close> below). The special
  values follow IEEE-754: a division by zero yields an infinity
  (or NaN for 0/0), the square root of a negative number is NaN, and NaN is absorbing.
  The sign of a zero is not represented; a zero divisor is read as +0.0, which is the
  sign of every zero divisor that \<open>transmission_coefficient\<close> can meet (the only one
  is \<open>4 * k0 ** 2\<close>, a square).
\<close>

datatype fval = Fin real | PInf | NInf | NaN

fun fneg :: "fval \<Rightarrow> fval" where
  "fneg (Fin a) = Fin (- a)"
| "fneg PInf = NInf"
| "fneg NInf = PInf"
| "fneg NaN = NaN"

fun fadd :: "fval \<Rightarrow> fval \<Rightarrow> fval" where
  "fadd (Fin a) (Fin b) = Fin (a + b)"
| "fadd NaN _ = NaN"
| "fadd _ NaN = NaN"
| "fadd PInf NInf = NaN"
| "fadd NInf PInf = NaN"
| "fadd PInf _ = PInf"
| "fadd _ PInf = PInf"
| "fadd NInf _ = NInf"
| "fadd _ NInf = NInf"

definition fsub :: "fval \<Rightarrow> fval \<Rightarrow> fval" where
  "fsub x y = fadd x (fneg y)"

text \<open>The product of an infinity and a finite number: NaN at zero, else by sign.\<close>

definition inf_times :: "bool \<Rightarrow> real \<Rightarrow> fval" where
  "inf_times positive b =
     (if b = 0 then NaN else if (0 < b) = positive then PInf else NInf)"

fun fmul :: "fval \<Rightarrow> fval \<Rightarrow> fval" where
  "fmul (Fin a) (Fin b) = Fin (a * b)"
| "fmul NaN _ = NaN"
| "fmul _ NaN = NaN"
| "fmul PInf (Fin b) = inf_times True b"
| "fmul NInf (Fin b) = inf_times False b"
| "fmul (Fin a) PInf = inf_times True a"
| "fmul (Fin a) NInf = inf_times False a"
| "fmul PInf PInf = PInf"
| "fmul PInf NInf = NInf"
| "fmul NInf PInf = NInf"
| "fmul NInf NInf = PInf"

fun fdiv :: "fval \<Rightarrow> fval \<Rightarrow> fval" where
  "fdiv (Fin a) (Fin b) =
     (if b \<noteq> 0 then Fin (a / b)
      else if a = 0 then NaN else if 0 < a then PInf else NInf)"
| "fdiv NaN _ = NaN"
| "fdiv _ NaN = NaN"
| "fdiv (Fin a) PInf = Fin 0"
| "fdiv (Fin a) NInf = Fin 0"
| "fdiv PInf (Fin b) = (if 0 \<le> b then PInf else NInf)"
| "fdiv NInf (Fin b) = (if 0 \<le> b then NInf else PInf)"
| "fdiv PInf PInf = NaN"
| "fdiv PInf NInf = NaN"
| "fdiv NInf PInf = NaN"
| "fdiv NInf NInf = NaN"

fun fsqrt :: "fval \<Rightarrow> fval" where
  "fsqrt (Fin a) = (if a < 0 then NaN else Fin (sqrt a))"
| "fsqrt PInf = PInf"
| "fsqrt NInf = NaN"
| "fsqrt NaN = NaN"

fun fsinh :: "fval \<Rightarrow> fval" where
  "fsinh (Fin a) = Fin (sinh a)"
| "fsinh PInf = PInf"
| "fsinh NInf = NInf"
| "fsinh NaN = NaN"

text \<open>An ordered comparison with NaN is false.\<close>

fun flt :: "fval \<Rightarrow> fval \<Rightarrow> bool" where
  "flt (Fin a) (Fin b) = (a < b)"
| "flt NaN _ = False"
| "flt _ NaN = False"
| "flt _ NInf = False"
| "flt PInf _ = False"
| "flt NInf _ = True"
| "flt _ PInf = True"

subsection \<open>Python floats and numpy scalars\<close>

text \<open>
  A scalar of the program is a Python number (\<open>float\<close>, or an \<open>int\<close> literal such as
  \<open>2\<close>) or a \<open>numpy.float64\<close>. The two differ in one way that matters here: dividing a
  Python number by a Python zero raises \<open>ZeroDivisionError\<close>, whereas a division with a
  \<open>numpy.float64\<close> operand follows IEEE-754 and only warns. An operation with a
  \<open>numpy.float64\<close> operand yields a \<open>numpy.float64\<close>, and so does every numpy function.
\<close>

datatype kind = Py | Np

datatype scalar = Num kind fval

datatype error = ZeroDivisionError

fun join :: "kind \<Rightarrow> kind \<Rightarrow> kind" where
  "join Py Py = Py"
| "join _ _ = Np"

definition py :: "real \<Rightarrow> scalar" where
  "py r = Num Py (Fin r)"

fun mul :: "scalar \<Rightarrow> scalar \<Rightarrow> scalar" where
  "mul (Num a x) (Num b y) = Num (join a b) (fmul x y)"

fun add :: "scalar \<Rightarrow> scalar \<Rightarrow> scalar" where
  "add (Num a x) (Num b y) = Num (join a b) (fadd x y)"

fun sub :: "scalar \<Rightarrow> scalar \<Rightarrow> scalar" where
  "sub (Num a x) (Num b y) = Num (join a b) (fsub x y)"

fun truediv :: "scalar \<Rightarrow> scalar \<Rightarrow> error + scalar" where
  "truediv (Num a x) (Num b y) =
     (if a = Py \<and> b = Py \<and> y = Fin 0 then Inl ZeroDivisionError
      else Inr (Num (join a b) (fdiv x y)))"

text \<open>
  \<open>x ** 2\<close>. The function squares \<open>numpy.float64\<close> values only (\<open>k\<close>, \<open>k0\<close> and the
  result of \<open>np.sinh\<close>), for which the power never raises.
\<close>

fun pow2 :: "scalar \<Rightarrow> scalar" where
  "pow2 (Num a x) = Num a (fmul x x)"

fun lt :: "scalar \<Rightarrow> scalar \<Rightarrow> bool" where
  "lt (Num a x) (Num b y) = flt x y"

fun np_sqrt :: "scalar \<Rightarrow> scalar" where
  "np_sqrt (Num a x) = Num Np (fsqrt x)"

fun np_sinh :: "scalar \<Rightarrow> scalar" where
  "np_sinh (Num a x) = Num Np (fsinh x)"

section \<open>The transmission model\<close>

text \<open>
  The constants \<open>h\<close>, \<open>m_e\<close> and \<open>e\<close> are imported from \<open>scipy.constants\<close>: the Planck
  constant in J s, the electron mass in kg and the elementary charge in C (CODATA 2018;
  \<open>h\<close> and \<open>e\<close> are exact in the SI). The proofs use only that they are positive.
\<close>

definition h :: real where
  "h = 662607015 / 10 ^ 42"

definition m_e :: real where
  "m_e = 91093837015 / 10 ^ 41"

definition e :: real where
  "e = 1602176634 / 10 ^ 28"

definition HBAR :: real where
  "HBAR = h / (2 * pi)"

definition ME :: real where
  "ME = m_e"

definition transmission_coefficient :: "scalar \<Rightarrow> scalar \<Rightarrow> scalar \<Rightarrow> error + scalar" where
  "transmission_coefficient V0_ev E_ev width_nm =
     (let V0 = mul V0_ev (py e);
          E = mul E_ev (py e);
          width = mul width_nm (py (1 / 10 ^ 9))
      in if lt E V0 then
           (case truediv (np_sqrt (mul (mul (py 2) (py ME)) (sub V0 E))) (py HBAR) of
              Inl err \<Rightarrow> Inl err
            | Inr k \<Rightarrow>
           (case truediv (np_sqrt (mul (mul (py 2) (py ME)) E)) (py HBAR) of
              Inl err \<Rightarrow> Inl err
            | Inr k0 \<Rightarrow>
           (case truediv (pow2 k) (mul (py 4) (pow2 k0)) of
              Inl err \<Rightarrow> Inl err
            | Inr q \<Rightarrow>
                truediv (py 1) (add (py 1) (mul q (pow2 (np_sinh (mul k width))))))))
         else Inr (py 1))"

subsection \<open>The closed form of the specification\<close>

text \<open>
  The rectangular-barrier formula as the specification words it, on SI quantities:
  \<open>k = sqrt(2 m_e (V0 - E)) / hbar\<close>, \<open>k0 = sqrt(2 m_e E) / hbar\<close> with \<open>hbar = h / (2 pi)\<close>,
  and \<open>T = 1 / (1 + (k\<^sup>2 / (4 k0\<^sup>2)) sinh\<^sup>2(k w))\<close>. It is read in the same arithmetic
  as the program, so that a negative square root is NaN and a division by zero an
  infinity. \<open>closed_form_transmission\<close> converts from eV and nm first.
\<close>

definition hbar_spec :: real where
  "hbar_spec = h / (2 * pi)"

definition rectangular_barrier_T :: "real \<Rightarrow> real \<Rightarrow> real \<Rightarrow> fval" where
  "rectangular_barrier_T V0_SI E_SI w_SI =
     (let k = fdiv (fsqrt (Fin (2 * m_e * (V0_SI - E_SI)))) (Fin hbar_spec);
          k0 = fdiv (fsqrt (Fin (2 * m_e * E_SI))) (Fin hbar_spec);
          s = fsinh (fmul k (Fin w_SI))
      in fdiv (Fin 1)
           (fadd (Fin 1) (fmul (fdiv (fmul k k) (fmul (Fin 4) (fmul k0 k0))) (fmul s s))))"

definition closed_form_transmission :: "real \<Rightarrow> real \<Rightarrow> real \<Rightarrow> fval" where
  "closed_form_transmission V0 E w =
     rectangular_barrier_T (V0 * e) (E * e) (w * (1 / 10 ^ 9))"

subsection \<open>The function in the range of binary64\<close>

text \<open>
  A finite binary64 number is smaller than \<open>2 ^ 1024\<close> in magnitude; a result that is not
  overflows to the infinity of its sign. \<open>transmission_coefficient_b64\<close> is the same
  function with every arithmetic result brought into that range, so that the overflow of
  \<open>np.sinh\<close>, of a square or of a product is represented. Rounding within the range, and
  with it underflow, is still not represented: a result below \<open>2 ^ 1024\<close> is kept as it
  is. The square root of a number in the range is in the range. Python's own
  multiplication yields an infinity on overflow, as numpy's does.
\<close>

fun b64_range :: "fval \<Rightarrow> fval" where
  "b64_range (Fin a) =
     (if 2 ^ 1024 \<le> a then PInf else if a \<le> - (2 ^ 1024) then NInf else Fin a)"
| "b64_range PInf = PInf"
| "b64_range NInf = NInf"
| "b64_range NaN = NaN"

fun in_range :: "scalar \<Rightarrow> scalar" where
  "in_range (Num a x) = Num a (b64_range x)"

definition mul64 :: "scalar \<Rightarrow> scalar \<Rightarrow> scalar" where
  "mul64 x y = in_range (mul x y)"

definition add64 :: "scalar \<Rightarrow> scalar \<Rightarrow> scalar" where
  "add64 x y = in_range (add x y)"

definition sub64 :: "scalar \<Rightarrow> scalar \<Rightarrow> scalar" where
  "sub64 x y = in_range (sub x y)"

definition truediv64 :: "scalar \<Rightarrow> scalar \<Rightarrow> error + scalar" where
  "truediv64 x y = (case truediv x y of Inl err \<Rightarrow> Inl err | Inr q \<Rightarrow> Inr (in_range q))"

definition pow2_64 :: "scalar \<Rightarrow> scalar" where
  "pow2_64 x = in_range (pow2 x)"

definition np_sinh64 :: "scalar \<Rightarrow> scalar" where
  "np_sinh64 x = in_range (np_sinh x)"

definition transmission_coefficient_b64 :: "scalar \<Rightarrow> scalar \<Rightarrow> scalar \<Rightarrow> error + scalar" where
  "transmission_coefficient_b64 V0_ev E_ev width_nm =
     (let V0 = mul64 V0_ev (py e);
          E = mul64 E_ev (py e);
          width = mul64 width_nm (py (1 / 10 ^ 9))
      in if lt E V0 then
           (case truediv64 (np_sqrt (mul64 (mul64 (py 2) (py ME)) (sub64 V0 E))) (py HBAR) of
              Inl err \<Rightarrow> Inl err
            | Inr k \<Rightarrow>
           (case truediv64 (np_sqrt (mul64 (mul64 (py 2) (py ME)) E)) (py HBAR) of
              Inl err \<Rightarrow> Inl err
            | Inr k0 \<Rightarrow>
           (case truediv64 (pow2_64 k) (mul64 (py 4) (pow2_64 k0)) of
              Inl err \<Rightarrow> Inl err
            | Inr q \<Rightarrow>
                truediv64 (py 1)
                  (add64 (py 1) (mul64 q (pow2_64 (np_sinh64 (mul64 k width))))))))
         else Inr (py 1))"

section \<open>The parameter sweeps\<close>

text \<open>
  The two plotting functions compute their data before they draw it. The model keeps the
  data and leaves the drawing out: \<open>plot_transmission_coefficient\<close> yields the
  \<open>transmission_map\<close> it hands to \<open>contourf\<close>, and \<open>plot_transmission_variations\<close> the
  three \<open>transmissions\<close> lists it hands to \<open>plot\<close>.

  A float64 array is a list of values (a matrix a list of rows). The numpy functions are
  library code, modelled from their documentation: \<open>linspace start stop num\<close> is \<open>num\<close>
  evenly spaced points from \<open>start\<close> to \<open>stop\<close>, both included; \<open>meshgrid xs ys\<close> (default
  \<open>xy\<close> indexing) is the pair of matrices with one row per element of \<open>ys\<close> and one
  column per element of \<open>xs\<close>, holding \<open>xs ! j\<close> and \<open>ys ! i\<close> at \<open>(i, j)\<close>.
  Reading an element gives a \<open>numpy.float64\<close>; storing a scalar keeps its value.
\<close>

definition linspace :: "real \<Rightarrow> real \<Rightarrow> nat \<Rightarrow> fval list" where
  "linspace start stop num =
     map (\<lambda>i. Fin (start + real i * ((stop - start) / real (num - 1)))) [0..<num]"

definition meshgrid :: "fval list \<Rightarrow> fval list \<Rightarrow> fval list list \<times> fval list list" where
  "meshgrid xs ys = (map (\<lambda>y. xs) ys, map (\<lambda>y. map (\<lambda>x. y) xs) ys)"

definition zeros_like :: "fval list list \<Rightarrow> fval list list" where
  "zeros_like m = map (map (\<lambda>x. Fin 0)) m"

definition shape0 :: "fval list list \<Rightarrow> nat" where
  "shape0 m = length m"

definition shape1 :: "fval list list \<Rightarrow> nat" where
  "shape1 m = (case m of [] \<Rightarrow> 0 | r # rs \<Rightarrow> length r)"

fun float64 :: "scalar \<Rightarrow> fval" where
  "float64 (Num a x) = x"

text \<open>\<open>m[i, j]\<close> and \<open>m[i, j] = v\<close>, for indices in range (the loops below stay in range).\<close>

definition getitem :: "fval list list \<Rightarrow> nat \<Rightarrow> nat \<Rightarrow> scalar" where
  "getitem m i j = Num Np (m ! i ! j)"

definition setitem :: "fval list list \<Rightarrow> nat \<Rightarrow> nat \<Rightarrow> scalar \<Rightarrow> fval list list" where
  "setitem m i j v = m[i := (m ! i)[j := float64 v]]"

text \<open>
  The nested loops of \<open>plot_transmission_coefficient\<close>, each over the list of its indices;
  an exception of the call would leave the loops at once.
\<close>

primrec for_j ::
  "fval list list \<Rightarrow> scalar \<Rightarrow> fval list list \<Rightarrow> nat \<Rightarrow> nat list \<Rightarrow> fval list list
     \<Rightarrow> error + fval list list" where
  "for_j V0_mesh E_ev width_mesh i [] transmission_map = Inr transmission_map"
| "for_j V0_mesh E_ev width_mesh i (j # js) transmission_map =
     (case transmission_coefficient (getitem V0_mesh i j) E_ev (getitem width_mesh i j) of
        Inl err \<Rightarrow> Inl err
      | Inr t \<Rightarrow> for_j V0_mesh E_ev width_mesh i js (setitem transmission_map i j t))"

primrec for_i ::
  "fval list list \<Rightarrow> scalar \<Rightarrow> fval list list \<Rightarrow> nat list \<Rightarrow> fval list list
     \<Rightarrow> error + fval list list" where
  "for_i V0_mesh E_ev width_mesh [] transmission_map = Inr transmission_map"
| "for_i V0_mesh E_ev width_mesh (i # is) transmission_map =
     (case for_j V0_mesh E_ev width_mesh i [0..<shape1 V0_mesh] transmission_map of
        Inl err \<Rightarrow> Inl err
      | Inr m \<Rightarrow> for_i V0_mesh E_ev width_mesh is m)"

definition plot_transmission_coefficient ::
  "scalar \<Rightarrow> scalar \<Rightarrow> scalar \<Rightarrow> error + fval list list" where
  "plot_transmission_coefficient E_ev V0_ev width_nm =
     (let V0_range = linspace (1 / 2) 10 100;
          width_range = linspace (1 / 10) 2 100;
          (V0_mesh, width_mesh) = meshgrid V0_range width_range;
          transmission_map = zeros_like V0_mesh
      in for_i V0_mesh E_ev width_mesh [0..<shape0 V0_mesh] transmission_map)"

text \<open>A list comprehension \<open>[f x for x in xs]\<close> over an array.\<close>

primrec comprehension :: "(scalar \<Rightarrow> error + scalar) \<Rightarrow> fval list \<Rightarrow> error + scalar list" where
  "comprehension f [] = Inr []"
| "comprehension f (x # xs) =
     (case f (Num Np x) of
        Inl err \<Rightarrow> Inl err
      | Inr t \<Rightarrow> (case comprehension f xs of Inl err \<Rightarrow> Inl err | Inr ts \<Rightarrow> Inr (t # ts)))"

definition plot_transmission_variations ::
  "scalar \<Rightarrow> scalar \<Rightarrow> scalar \<Rightarrow> error + scalar list \<times> scalar list \<times> scalar list" where
  "plot_transmission_variations E_ev V0_fixed width_fixed =
     (let V0_range = linspace (1 / 10) 10 100 in
      case comprehension (\<lambda>V0. transmission_coefficient V0 E_ev width_fixed) V0_range of
        Inl err \<Rightarrow> Inl err
      | Inr transmissions1 \<Rightarrow>
     (let width_range = linspace (1 / 10) 2 100 in
      case comprehension (\<lambda>width. transmission_coefficient V0_fixed E_ev width) width_range of
        Inl err \<Rightarrow> Inl err
      | Inr transmissions2 \<Rightarrow>
     (let E_range = linspace (1 / 10) 10 100 in
      case comprehension (\<lambda>E_val. transmission_coefficient V0_fixed E_val width_fixed) E_range of
        Inl err \<Rightarrow> Inl err
      | Inr transmissions3 \<Rightarrow> Inr (transmissions1, transmissions2, transmissions3))))"

section \<open>Auxiliary quantities\<close>

text \<open>
  Names for two subterms of \<open>transmission_coefficient\<close>, used in the proofs only:
  \<open>wavenumber x\<close> is \<open>np.sqrt(2 * ME * x') / HBAR\<close> for an energy \<open>x\<close> in eV (\<open>x'\<close>, in J);
  \<open>k\<close> is \<open>wavenumber (V0 - E)\<close> and \<open>k0\<close> is \<open>wavenumber E\<close>. \<open>attenuation\<close> is the
  term added to 1 in the denominator of \<open>T\<close>. \<open>cell\<close> is the value one pass of the inner
  loop stores.
\<close>

definition wavenumber :: "real \<Rightarrow> real" where
  "wavenumber x = sqrt (2 * ME * (x * e)) / HBAR"

definition attenuation :: "real \<Rightarrow> real \<Rightarrow> real \<Rightarrow> real" where
  "attenuation V0 E w =
     (wavenumber (V0 - E))\<^sup>2 / (4 * (wavenumber E)\<^sup>2)
       * (sinh (wavenumber (V0 - E) * (w / 10 ^ 9)))\<^sup>2"

definition cell :: "fval list list \<Rightarrow> scalar \<Rightarrow> fval list list \<Rightarrow> nat \<Rightarrow> nat \<Rightarrow> fval" where
  "cell V E W i j = float64 (projr (transmission_coefficient (getitem V i j) E (getitem W i j)))"

text \<open>
  \<open>saturates V0 E w\<close> says that the hyperbolic sine squared, or the denominator of \<open>T\<close>,
  leaves the range of binary64.
\<close>

definition saturates :: "real \<Rightarrow> real \<Rightarrow> real \<Rightarrow> bool" where
  "saturates V0 E w \<longleftrightarrow>
     2 ^ 1024 \<le> (sinh (wavenumber (V0 - E) * (w / 10 ^ 9)))\<^sup>2
     \<or> 2 ^ 1024 \<le> 1 + attenuation V0 E w"

section \<open>Properties of the transmission model\<close>

subsection \<open>The constants\<close>

lemma e_pos: "0 < e"
  by (simp add: e_def)

lemma ME_pos: "0 < ME"
  by (simp add: ME_def m_e_def)

lemma HBAR_pos: "0 < HBAR"
  by (simp add: HBAR_def h_def)

subsection \<open>The wavenumbers and the attenuation term\<close>

lemma wavenumber_pos: "0 < x \<Longrightarrow> 0 < wavenumber x"
  using e_pos ME_pos HBAR_pos by (simp add: wavenumber_def)


lemma wavenumber_sq: "0 \<le> x \<Longrightarrow> (wavenumber x)\<^sup>2 = 2 * ME * (x * e) / HBAR\<^sup>2"
  using ME_pos e_pos by (simp add: wavenumber_def power_divide)

lemma prefactor:
  assumes "0 \<le> d" and "0 < E"
  shows "(wavenumber d)\<^sup>2 / (4 * (wavenumber E)\<^sup>2) = d / (4 * E)"
proof -
  have "ME \<noteq> 0" "e \<noteq> 0" "HBAR \<noteq> 0" "E \<noteq> 0"
    using ME_pos e_pos HBAR_pos assms by simp_all
  then show ?thesis using assms by (simp add: wavenumber_sq field_simps)
qed


lemma attenuation_nonneg: "0 \<le> attenuation V0 E w"
  by (simp add: attenuation_def)


lemma attenuation_even: "attenuation V0 E (- w) = attenuation V0 E w"
  by (simp add: attenuation_def)






subsection \<open>The two branches\<close>

lemma not_lt_above:
  assumes "V0 \<le> E"
  shows "\<not> lt (mul (Num b (Fin E)) (py e)) (mul (Num a (Fin V0)) (py e))"
  using assms e_pos by (simp add: py_def)

lemma above_barrier:
  assumes "V0 \<le> E"
  shows "transmission_coefficient (Num a (Fin V0)) (Num b (Fin E)) width_nm = Inr (py 1)"
  unfolding transmission_coefficient_def Let_def
  using not_lt_above [OF assms] by simp

lemma sub_barrier:
  assumes "0 < E" and "E < V0"
  shows "transmission_coefficient (Num a (Fin V0)) (Num b (Fin E)) (Num c (Fin w))
           = Inr (Num Np (Fin (1 / (1 + attenuation V0 E w))))"
proof -
  have lt: "E * e < V0 * e" using assms e_pos by simp
  have nn1: "\<not> 2 * ME * (V0 * e - E * e) < 0"
    using lt ME_pos by (simp add: zero_le_mult_iff not_less)
  have nn2: "\<not> 2 * ME * (E * e) < 0"
    using assms e_pos ME_pos by (simp add: zero_le_mult_iff not_less)
  have k: "sqrt (2 * ME * (V0 * e - E * e)) / HBAR = wavenumber (V0 - E)"
    by (simp add: wavenumber_def algebra_simps)
  have k0: "sqrt (2 * ME * (E * e)) / HBAR = wavenumber E"
    by (simp add: wavenumber_def)
  have k0pos: "0 < wavenumber E" using assms by (simp add: wavenumber_pos)
  have d: "1 + attenuation V0 E w \<noteq> 0"
    using attenuation_nonneg [of V0 E w] by linarith
  have H: "HBAR \<noteq> 0" using HBAR_pos by simp
  show ?thesis
    unfolding transmission_coefficient_def Let_def py_def
    using lt nn1 nn2 H k0pos d
    apply (simp add: fsub_def k k0)
    apply (simp add: attenuation_def power2_eq_square)
    done
qed

lemma never_raises: "\<exists>v. transmission_coefficient V0_ev E_ev width_nm = Inr v"
proof -
  obtain a x where V: "V0_ev = Num a x" by (cases V0_ev)
  obtain b y where E: "E_ev = Num b y" by (cases E_ev)
  obtain c z where W: "width_nm = Num c z" by (cases width_nm)
  show ?thesis
    unfolding transmission_coefficient_def Let_def V E W py_def
    by (cases a; cases b; cases c) simp_all
qed

lemma zero_energy:
  assumes "0 < V0"
  shows "transmission_coefficient (Num a (Fin V0)) (Num b (Fin 0)) (Num c (Fin w))
           = Inr (Num Np (if w = 0 then NaN else Fin 0))"
proof -
  have lt: "0 < V0 * e" using assms e_pos by simp
  have nn1: "\<not> 2 * ME * (V0 * e) < 0"
    using lt ME_pos by (simp add: not_less mult.commute)
  have kpos: "0 < sqrt (2 * ME * (V0 * e)) / HBAR"
    using lt ME_pos HBAR_pos by simp
  have H: "HBAR \<noteq> 0" "ME \<noteq> 0" "e \<noteq> 0" "V0 \<noteq> 0"
    using HBAR_pos ME_pos e_pos assms by simp_all
  show ?thesis
    unfolding transmission_coefficient_def Let_def py_def
    using lt nn1 H kpos
    by (simp add: fsub_def inf_times_def zero_less_mult_iff)
qed

subsection \<open>Claims about the transmission model\<close>

lemma closed_form_refined:
  assumes "E < V0"
  shows "transmission_coefficient (Num a (Fin V0)) (Num b (Fin E)) (Num c (Fin w))
           = Inr (Num Np (closed_form_transmission V0 E w))"
proof -
  have lt: "E * e < V0 * e" using assms e_pos by simp
  have hb: "hbar_spec = HBAR" by (simp add: hbar_spec_def HBAR_def)
  have sub: "fsub (Fin (V0 * e)) (Fin (E * e)) = Fin (V0 * e - E * e)"
    by (simp add: fsub_def)
  have "transmission_coefficient (Num a (Fin V0)) (Num b (Fin E)) (Num c (Fin w))
      = Inr (Num Np (rectangular_barrier_T (V0 * e) (E * e) (w * (1 / 10 ^ 9))))"
    unfolding transmission_coefficient_def rectangular_barrier_T_def Let_def py_def hb
    using lt by (simp add: sub ME_def del: fdiv.simps fsqrt.simps fsinh.simps)
  then show ?thesis by (simp add: closed_form_transmission_def)
qed

lemma closed_form_regular:
  assumes "0 < E" and "E < V0"
  shows "(let hbar = h / (2 * pi);
              k = sqrt (2 * m_e * (V0 * e - E * e)) / hbar;
              k0 = sqrt (2 * m_e * (E * e)) / hbar
          in closed_form_transmission V0 E w
               = Fin (1 / (1 + k\<^sup>2 / (4 * k0\<^sup>2) * (sinh (k * (w * (1 / 10 ^ 9))))\<^sup>2)))"
proof -
  have "Inr (Num Np (closed_form_transmission V0 E w))
      = (Inr (Num Np (Fin (1 / (1 + attenuation V0 E w)))) :: error + scalar)"
    using closed_form_refined [OF assms(2), of Py Py Py w]
      sub_barrier [OF assms, of Py Py Py w] by simp
  then have "closed_form_transmission V0 E w = Fin (1 / (1 + attenuation V0 E w))" by simp
  then show ?thesis
    by (simp add: Let_def attenuation_def wavenumber_def ME_def HBAR_def algebra_simps)
qed

text \<open>
  C1. For every strictly positive barrier height \<open>V0\<close> (eV), electron energy \<open>E < V0\<close>
  (eV) and barrier width \<open>w\<close> (nm), \<open>transmission_coefficient\<close> returns the closed-form
  rectangular-barrier value of the specification: the inputs converted to SI units
  (energies times the elementary charge, the width times 1e-9), then
  \<open>T = 1 / (1 + (k\<^sup>2 / (4 k0\<^sup>2)) sinh\<^sup>2(k w))\<close> with \<open>k = sqrt(2 m_e (V0 - E)) / hbar\<close>,
  \<open>k0 = sqrt(2 m_e E) / hbar\<close> and \<open>hbar = h / (2 pi)\<close>. The result is a \<open>numpy.float64\<close>.
  For \<open>E > 0\<close> the closed form is the finite real number the formula denotes; for
  \<open>E \<le> 0\<close> it is the special value IEEE-754 gives it.
\<close>

theorem sub_barrier_is_closed_form:
  assumes "0 < V0" and "E < V0"
  shows "transmission_coefficient (Num a (Fin V0)) (Num b (Fin E)) (Num c (Fin w))
           = Inr (Num Np (closed_form_transmission V0 E w)) \<and>
         (0 < E \<longrightarrow>
            (let hbar = h / (2 * pi);
                 k = sqrt (2 * m_e * (V0 * e - E * e)) / hbar;
                 k0 = sqrt (2 * m_e * (E * e)) / hbar
             in closed_form_transmission V0 E w
                  = Fin (1 / (1 + k\<^sup>2 / (4 * k0\<^sup>2) * (sinh (k * (w * (1 / 10 ^ 9))))\<^sup>2))))"
  using closed_form_refined [OF assms(2)] closed_form_regular [OF _ assms(2)] by blast

theorem sub_barrier_is_closed_form_witness:
  "(0::real) < 2 \<and> (1::real) < 2 \<and> (0::real) < 1 \<and>
   transmission_coefficient (Num Py (Fin 2)) (Num Py (Fin 1)) (Num Py (Fin 1))
     = Inr (Num Np (closed_form_transmission 2 1 1)) \<and>
   (let hbar = h / (2 * pi);
        k = sqrt (2 * m_e * (2 * e - 1 * e)) / hbar;
        k0 = sqrt (2 * m_e * (1 * e)) / hbar
    in closed_form_transmission 2 1 1
         = Fin (1 / (1 + k\<^sup>2 / (4 * k0\<^sup>2) * (sinh (k * (1 * (1 / 10 ^ 9))))\<^sup>2)))"
proof -
  have h: "(0::real) < 2" "(1::real) < 2" "(0::real) < 1" by simp_all
  note closed = sub_barrier_is_closed_form [OF h(1,2), of Py Py Py 1]
  show ?thesis
    using h closed [THEN conjunct1] closed [THEN conjunct2, rule_format, OF h(3)] by blast
qed

text \<open>
  C2. For every barrier height \<open>V0 > 0\<close>, electron energy \<open>E \<ge> V0\<close> and width
  \<open>w > 0\<close>, \<open>transmission_coefficient\<close> returns exactly the Python float \<open>1.0\<close>,
  whatever the kinds of the three arguments; the witness is the boundary scenario
  \<open>V0 = 1.0\<close>, \<open>E = 1.0\<close>, \<open>w = 1.0\<close>.
\<close>

theorem above_barrier_is_one:
  assumes "0 < V0" and "V0 \<le> E" and "0 < w"
  shows "transmission_coefficient (Num a (Fin V0)) (Num b (Fin E)) (Num c (Fin w))
           = Inr (Num Py (Fin 1))"
  using above_barrier [OF assms(2)] by (simp add: py_def)

theorem above_barrier_is_one_witness:
  "(0::real) < 1 \<and> (1::real) \<le> 1 \<and> (0::real) < 1 \<and>
   transmission_coefficient (Num Py (Fin 1)) (Num Py (Fin 1)) (Num Py (Fin 1))
     = Inr (Num Py (Fin 1))"
  using above_barrier_is_one [of 1 1 1 Py Py Py] by simp

text \<open>
  C6. \<open>transmission_coefficient\<close> raises for no input, of either kind and of any value
  (zero, negative, infinite or NaN): both square roots are \<open>numpy.float64\<close>, so every
  division of the function has a \<open>numpy.float64\<close> operand. At \<open>E = 0\<close> with \<open>V0 > 0\<close>,
  where \<open>k0 = 0\<close>, the quotient \<open>k\<^sup>2 / (4 k0\<^sup>2)\<close> is an infinity that passes into the
  returned value: NaN at width 0 (infinity times zero) and \<open>1 / inf = 0.0\<close> otherwise.
\<close>

theorem transmission_never_raises:
  "(\<exists>v. transmission_coefficient V0_ev E_ev width_nm = Inr v) \<and>
   (0 < V0 \<longrightarrow>
      transmission_coefficient (Num a (Fin V0)) (Num b (Fin 0)) (Num c (Fin w))
        = Inr (Num Np (if w = 0 then NaN else Fin 0)))"
  using never_raises zero_energy by blast

theorem transmission_never_raises_witness:
  "(\<exists>v. transmission_coefficient (Num Py (Fin (- 1))) (Num Py (Fin 0)) (Num Py (Fin 0)) = Inr v) \<and>
   (0::real) < 2 \<and>
   transmission_coefficient (Num Py (Fin 2)) (Num Py (Fin 0)) (Num Py (Fin 1))
     = Inr (Num Np (Fin 0)) \<and>
   transmission_coefficient (Num Py (Fin 2)) (Num Py (Fin 0)) (Num Py (Fin 0))
     = Inr (Num Np NaN)"
  using transmission_never_raises
          [of "Num Py (Fin (- 1))" "Num Py (Fin 0)" "Num Py (Fin 0)" 2 Py Py Py 1]
        transmission_never_raises
          [of "Num Py (Fin (- 1))" "Num Py (Fin 0)" "Num Py (Fin 0)" 2 Py Py Py 0]
  by simp



text \<open>
  C10. Whenever \<open>E \<ge> V0\<close> the result does not depend on the width argument: any two
  widths, of any kind and value (zero, negative, infinite or NaN), give the same
  result, the Python float \<open>1.0\<close>.
\<close>

theorem above_barrier_ignores_width:
  assumes "V0 \<le> E"
  shows "transmission_coefficient (Num a (Fin V0)) (Num b (Fin E)) w1
           = transmission_coefficient (Num a (Fin V0)) (Num b (Fin E)) w2 \<and>
         transmission_coefficient (Num a (Fin V0)) (Num b (Fin E)) w1 = Inr (Num Py (Fin 1))"
  using above_barrier [OF assms] by (simp add: py_def)

theorem above_barrier_ignores_width_witness:
  "(1::real) \<le> 2 \<and>
   transmission_coefficient (Num Py (Fin 1)) (Num Py (Fin 2)) (Num Py (Fin 0))
     = transmission_coefficient (Num Py (Fin 1)) (Num Py (Fin 2)) (Num Np (Fin (- 3))) \<and>
   transmission_coefficient (Num Py (Fin 1)) (Num Py (Fin 2)) (Num Py (Fin 0))
     = Inr (Num Py (Fin 1))"
proof -
  have h: "(1::real) \<le> 2" by simp
  show ?thesis
    using h above_barrier_ignores_width [OF h, of Py Py "Num Py (Fin 0)" "Num Np (Fin (- 3))"]
    by blast
qed

section \<open>Properties in the range of binary64\<close>

subsection \<open>Overflow in the denominator\<close>

lemma b64_range_small: "\<bar>a\<bar> \<le> 10 ^ 200 \<Longrightarrow> b64_range (Fin a) = Fin a"
  by (simp add: abs_le_iff)

lemma square_ge_self:
  assumes "1 \<le> m" and "m \<le> \<bar>s::real\<bar>"
  shows "m \<le> s\<^sup>2"
proof -
  have "1 \<le> \<bar>s\<bar>" using assms by linarith
  with assms(2) have "m * 1 \<le> \<bar>s\<bar> * \<bar>s\<bar>" by (intro mult_mono) simp_all
  then show ?thesis by (simp add: power2_eq_square)
qed

lemma saturated_tail:
  assumes "0 < q" and "q \<le> 10 ^ 200"
  shows "truediv64 (py 1)
           (add64 (py 1) (mul64 (Num Np (Fin q)) (pow2_64 (np_sinh64 (Num Np (Fin x))))))
         = Inr (Num Np (Fin (if 2 ^ 1024 \<le> (sinh x)\<^sup>2 \<or> 2 ^ 1024 \<le> 1 + q * (sinh x)\<^sup>2
                              then 0 else 1 / (1 + q * (sinh x)\<^sup>2))))"
proof -
  define M :: real where "M = 2 ^ 1024"
  define s where "s = sinh x"
  have M1: "1 \<le> M" by (simp add: M_def)
  have M2: "1 < M" by (simp add: M_def)
  have q0: "q \<noteq> 0" using assms by simp
  have zero: "b64_range (Fin 0) = Fin 0" by simp
  have rng: "\<And>a. b64_range (Fin a) = (if M \<le> a then PInf else if a \<le> - M then NInf else Fin a)"
    by (simp add: M_def)
  have keep: "\<And>a. 0 \<le> a \<Longrightarrow> \<not> M \<le> a \<Longrightarrow> b64_range (Fin a) = Fin a"
  proof -
    fix a :: real
    assume "0 \<le> a" and "\<not> M \<le> a"
    moreover from \<open>0 \<le> a\<close> M1 have "\<not> a \<le> - M" by linarith
    ultimately show "b64_range (Fin a) = Fin a" by (simp add: rng del: b64_range.simps(1))
  qed
  have goal: "truediv64 (py 1)
           (add64 (py 1) (mul64 (Num Np (Fin q)) (pow2_64 (np_sinh64 (Num Np (Fin x))))))
         = Inr (Num Np (Fin (if M \<le> s\<^sup>2 \<or> M \<le> 1 + q * s\<^sup>2
                              then 0 else 1 / (1 + q * s\<^sup>2))))"
  proof (cases "M \<le> \<bar>s\<bar>")
    case True
    then have sat: "M \<le> s\<^sup>2" using M1 by (intro square_ge_self)
    have "b64_range (Fin s) = PInf \<or> b64_range (Fin s) = NInf"
      using True M1 by (auto simp: rng simp del: b64_range.simps(1))
    then show ?thesis
      using sat assms(1) q0 M1 zero
      by (auto simp: truediv64_def add64_def mul64_def pow2_64_def np_sinh64_def py_def
          inf_times_def s_def [symmetric] simp del: b64_range.simps(1))
  next
    case False
    then have fin: "b64_range (Fin s) = Fin s" using M1 by (auto simp: rng simp del: b64_range.simps(1))
    show ?thesis
    proof (cases "M \<le> s * s")
      case True
      then have sat: "M \<le> s\<^sup>2" by (simp add: power2_eq_square)
      have "b64_range (Fin (s * s)) = PInf" using True by (simp add: rng del: b64_range.simps(1))
      then show ?thesis
        using sat assms(1) q0 fin zero
        by (simp add: truediv64_def add64_def mul64_def pow2_64_def np_sinh64_def py_def
            inf_times_def s_def [symmetric] del: b64_range.simps(1))
    next
      case s2: False
      have s2n: "0 \<le> s * s" by simp
      then have fin2: "b64_range (Fin (s * s)) = Fin (s * s)" using s2 by (rule keep)
      have A0: "0 \<le> q * (s * s)" using assms(1) s2n by simp
      show ?thesis
      proof (cases "M \<le> q * (s * s)")
        case True
        then have sat: "M \<le> 1 + q * s\<^sup>2" by (simp add: power2_eq_square)
        have "b64_range (Fin (q * (s * s))) = PInf" using True by (simp add: rng del: b64_range.simps(1))
        then show ?thesis
          using sat fin fin2 zero
          by (simp add: truediv64_def add64_def mul64_def pow2_64_def np_sinh64_def py_def
              s_def [symmetric] del: b64_range.simps(1))
      next
        case A: False
        have fin3: "b64_range (Fin (q * (s * s))) = Fin (q * (s * s))"
          using A0 A by (rule keep)
        show ?thesis
        proof (cases "M \<le> 1 + q * (s * s)")
          case True
          then have sat: "M \<le> 1 + q * s\<^sup>2" by (simp add: power2_eq_square)
          have "b64_range (Fin (1 + q * (s * s))) = PInf" using True by (simp add: rng del: b64_range.simps(1))
          then show ?thesis
            using sat fin fin2 fin3 zero
            by (simp add: truediv64_def add64_def mul64_def pow2_64_def np_sinh64_def py_def
                s_def [symmetric] del: b64_range.simps(1))
        next
          case D: False
          have nsat: "\<not> (M \<le> s\<^sup>2 \<or> M \<le> 1 + q * s\<^sup>2)"
            using s2 D by (simp add: power2_eq_square)
          have fin4: "b64_range (Fin (1 + q * (s * s))) = Fin (1 + q * (s * s))"
            using A0 D by (intro keep) simp_all
          have pos: "1 + q * (s * s) \<noteq> 0" using A0 by linarith
          have "0 \<le> 1 / (1 + q * (s * s)) \<and> 1 / (1 + q * (s * s)) \<le> 1"
            using A0 by (simp add: field_simps)
          then have fin5: "b64_range (Fin (1 / (1 + q * (s * s)))) = Fin (1 / (1 + q * (s * s)))"
            using M2 by (intro keep) linarith+
          show ?thesis
            using nsat fin fin2 fin3 fin4 fin5 pos
            by (simp add: truediv64_def add64_def mul64_def pow2_64_def np_sinh64_def py_def
                s_def [symmetric] power2_eq_square del: b64_range.simps(1))
        qed
      qed
    qed
  qed
  then show ?thesis by (simp only: M_def s_def)
qed

subsection \<open>Inputs of ordinary magnitude\<close>

text \<open>
  For an electron energy of at least \<open>1e-100\<close> eV, a barrier height of at most \<open>1e100\<close>
  eV and a width of at most \<open>1e100\<close> nm in magnitude, nothing overflows before the
  hyperbolic sine: the result is \<open>0.0\<close> when the sine squared or the denominator
  overflows, and the value of exact arithmetic otherwise.
\<close>

lemma e_le_one: "e \<le> 1"
  by (simp add: e_def)

lemma ME_le_one: "2 * ME \<le> 1"
  by (simp add: ME_def m_e_def)

lemma wavenumber_sq_upper:
  assumes "0 \<le> x"
  shows "(wavenumber x)\<^sup>2 \<le> 10 ^ 21 * x"
proof -
  have "pi\<^sup>2 \<le> 4\<^sup>2" using pi_less_4 pi_ge_zero by (intro power_mono) simp_all
  then have p: "pi\<^sup>2 \<le> 16" by simp
  have c: "0 \<le> 8 * ME * e / h\<^sup>2 * x" using assms ME_pos e_pos by simp
  have "(wavenumber x)\<^sup>2 = 8 * ME * e / h\<^sup>2 * x * pi\<^sup>2"
    using assms by (simp add: wavenumber_sq HBAR_def power_divide power_mult_distrib)
  also have "\<dots> \<le> 8 * ME * e / h\<^sup>2 * x * 16" using p c by (rule mult_left_mono)
  also have "\<dots> = (8 * ME * e / h\<^sup>2 * 16) * x" by simp
  also have "\<dots> \<le> 10 ^ 21 * x"
    using assms by (intro mult_right_mono) (simp_all add: ME_def m_e_def e_def h_def power2_eq_square)
  finally show ?thesis .
qed

lemma wavenumber_upper:
  assumes "0 \<le> x" and "x \<le> 10 ^ 100"
  shows "(wavenumber x)\<^sup>2 \<le> 10 ^ 121" and "wavenumber x \<le> 10 ^ 61"
proof -
  have "(wavenumber x)\<^sup>2 \<le> 10 ^ 21 * x" using assms(1) by (rule wavenumber_sq_upper)
  also have "\<dots> \<le> 10 ^ 21 * 10 ^ 100" using assms(2) by simp
  finally show sq: "(wavenumber x)\<^sup>2 \<le> 10 ^ 121" by simp
  have "(wavenumber x)\<^sup>2 \<le> (10 ^ 61)\<^sup>2" using sq by simp
  then show "wavenumber x \<le> 10 ^ 61" by (rule power2_le_imp_le) simp
qed

lemma mul64_fin:
  "\<bar>x * y\<bar> \<le> 10 ^ 200 \<Longrightarrow> mul64 (Num a (Fin x)) (Num b (Fin y)) = Num (join a b) (Fin (x * y))"
  by (simp add: mul64_def b64_range_small del: b64_range.simps(1))

lemma sub64_fin:
  "\<bar>x - y\<bar> \<le> 10 ^ 200 \<Longrightarrow> sub64 (Num a (Fin x)) (Num b (Fin y)) = Num (join a b) (Fin (x - y))"
  by (simp add: sub64_def fsub_def b64_range_small del: b64_range.simps(1))

lemma truediv64_np:
  "y \<noteq> 0 \<Longrightarrow> \<bar>x / y\<bar> \<le> 10 ^ 200 \<Longrightarrow>
   truediv64 (Num Np (Fin x)) (Num b (Fin y)) = Inr (Num Np (Fin (x / y)))"
  by (simp add: truediv64_def b64_range_small del: b64_range.simps(1))

lemma pow2_64_fin:
  "\<bar>x * x\<bar> \<le> 10 ^ 200 \<Longrightarrow> pow2_64 (Num a (Fin x)) = Num a (Fin (x * x))"
  by (simp add: pow2_64_def b64_range_small del: b64_range.simps(1))

lemma np_sqrt_fin: "0 \<le> x \<Longrightarrow> np_sqrt (Num a (Fin x)) = Num Np (Fin (sqrt x))"
  by simp

lemma in_range_values:
  assumes "1 / 10 ^ 100 \<le> E" and "E < V0" and "V0 \<le> 10 ^ 100" and "\<bar>w\<bar> \<le> 10 ^ 100"
  shows "transmission_coefficient_b64 (Num a (Fin V0)) (Num b (Fin E)) (Num c (Fin w))
           = Inr (Num Np (Fin (if saturates V0 E w then 0 else 1 / (1 + attenuation V0 E w))))"
proof -
  define Vs where "Vs = V0 * e"
  define Es where "Es = E * e"
  define ws where "ws = w * (1 / 10 ^ 9)"
  define c2 where "c2 = 2 * ME"
  define k where "k = wavenumber (V0 - E)"
  define k0 where "k0 = wavenumber E"
  define q where "q = k * k / (4 * (k0 * k0))"
  have E0: "0 < E" using assms(1) by (rule less_le_trans [rotated]) simp
  have V0p: "0 < V0" using E0 assms by simp
  have d0: "0 < V0 - E" "V0 - E \<le> 10 ^ 100" using assms E0 by simp_all
  have Ehi: "E \<le> 10 ^ 100" using assms by simp
  have big: "(10::real) ^ 100 \<le> 10 ^ 200" by simp
  have Vs: "0 < Vs" "Vs \<le> 10 ^ 100"
  proof -
    show "0 < Vs" using V0p e_pos by (simp add: Vs_def)
    have "V0 * e \<le> V0 * 1" using e_le_one V0p by (intro mult_left_mono) simp_all
    then have "V0 * e \<le> V0" by (simp only: mult_1_right)
    then show "Vs \<le> 10 ^ 100" unfolding Vs_def using assms(3) by (rule order_trans)
  qed
  have Es: "0 < Es" "Es < Vs"
    using E0 e_pos assms by (simp_all add: Es_def Vs_def)
  have f1: "mul64 (Num a (Fin V0)) (py e) = Num (join a Py) (Fin Vs)"
    unfolding Vs_def py_def using Vs big by (intro mul64_fin) (simp add: Vs_def)
  have f2: "mul64 (Num b (Fin E)) (py e) = Num (join b Py) (Fin Es)"
    unfolding Es_def py_def using Es Vs big by (intro mul64_fin) (simp add: Es_def)
  have "\<bar>w * (1 / 10 ^ 9)\<bar> \<le> \<bar>w\<bar>" by (simp add: abs_mult field_simps)
  then have wsb: "\<bar>ws\<bar> \<le> 10 ^ 91"
    using assms(4) by (simp add: ws_def abs_mult field_simps)
  have f3: "mul64 (Num c (Fin w)) (py (1 / 10 ^ 9)) = Num (join c Py) (Fin ws)"
    unfolding ws_def py_def using wsb by (intro mul64_fin) (simp add: ws_def)
  have f4: "lt (Num (join b Py) (Fin Es)) (Num (join a Py) (Fin Vs)) = True"
    using Es by simp
  have c2: "0 < c2" "c2 \<le> 1" using ME_pos ME_le_one by (simp_all add: c2_def)
  have f5: "mul64 (py 2) (py ME) = Num Py (Fin c2)"
    unfolding c2_def py_def using c2 by (simp add: mul64_fin c2_def)
  have ds: "0 < Vs - Es" "Vs - Es \<le> 10 ^ 100" using Es Vs by simp_all
  have f6: "sub64 (Num (join a Py) (Fin Vs)) (Num (join b Py) (Fin Es))
      = Num (join (join a Py) (join b Py)) (Fin (Vs - Es))"
    using ds by (intro sub64_fin) simp
  have r1: "0 \<le> c2 * (Vs - Es)" "c2 * (Vs - Es) \<le> 10 ^ 100"
  proof -
    show "0 \<le> c2 * (Vs - Es)" using c2 ds by simp
    have "c2 * (Vs - Es) \<le> 1 * (Vs - Es)" using c2 ds by (intro mult_right_mono) simp_all
    then have "c2 * (Vs - Es) \<le> Vs - Es" by (simp only: mult_1)
    then show "c2 * (Vs - Es) \<le> 10 ^ 100" using ds(2) by (rule order_trans)
  qed
  have f7: "mul64 (Num Py (Fin c2)) (Num (join (join a Py) (join b Py)) (Fin (Vs - Es)))
      = Num (join Py (join (join a Py) (join b Py))) (Fin (c2 * (Vs - Es)))"
    using r1 by (intro mul64_fin) simp
  have kval: "sqrt (c2 * (Vs - Es)) / HBAR = k"
    by (simp add: k_def wavenumber_def c2_def Vs_def Es_def algebra_simps)
  have kb: "0 < k" "k * k \<le> 10 ^ 121" "k \<le> 10 ^ 61"
    using wavenumber_pos [OF d0(1)] wavenumber_upper [OF less_imp_le [OF d0(1)] d0(2)]
    by (simp_all add: k_def power2_eq_square)
  have H: "HBAR \<noteq> 0" using HBAR_pos by simp
  have f8: "truediv64 (np_sqrt (Num (join Py (join (join a Py) (join b Py)))
                (Fin (c2 * (Vs - Es))))) (py HBAR) = Inr (Num Np (Fin k))"
    unfolding np_sqrt_fin [OF r1(1)] py_def kval [symmetric]
    using H kb by (intro truediv64_np) (simp_all add: kval)
  have r0: "0 \<le> c2 * Es" "c2 * Es \<le> 10 ^ 100"
  proof -
    show "0 \<le> c2 * Es" using c2 Es by simp
    have "c2 * Es \<le> 1 * Es" using c2 Es by (intro mult_right_mono) simp_all
    then have "c2 * Es \<le> Es" by (simp only: mult_1)
    then show "c2 * Es \<le> 10 ^ 100" using Es(2) Vs(2) by linarith
  qed
  have f9: "mul64 (Num Py (Fin c2)) (Num (join b Py) (Fin Es))
      = Num (join Py (join b Py)) (Fin (c2 * Es))"
    using r0 by (intro mul64_fin) simp
  have k0val: "sqrt (c2 * Es) / HBAR = k0"
    by (simp add: k0_def wavenumber_def c2_def Es_def)
  have k0b: "0 < k0" "k0 * k0 \<le> 10 ^ 121" "k0 \<le> 10 ^ 61"
    using wavenumber_pos [OF E0] wavenumber_upper [OF less_imp_le [OF E0] Ehi]
    by (simp_all add: k0_def power2_eq_square)
  have f10: "truediv64 (np_sqrt (Num (join Py (join b Py)) (Fin (c2 * Es)))) (py HBAR)
      = Inr (Num Np (Fin k0))"
    unfolding np_sqrt_fin [OF r0(1)] py_def k0val [symmetric]
    using H k0b by (intro truediv64_np) (simp_all add: k0val)
  have f11: "pow2_64 (Num Np (Fin k)) = Num Np (Fin (k * k))"
    using kb by (intro pow2_64_fin) simp
  have f12: "pow2_64 (Num Np (Fin k0)) = Num Np (Fin (k0 * k0))"
    using k0b by (intro pow2_64_fin) simp
  have f13: "mul64 (py 4) (Num Np (Fin (k0 * k0))) = Num Np (Fin (4 * (k0 * k0)))"
    unfolding py_def using k0b by (simp add: mul64_fin)
  have qv: "q = (V0 - E) / (4 * E)"
    using prefactor [of "V0 - E" E] d0 E0 by (simp add: q_def k_def k0_def power2_eq_square)
  have qb: "0 < q" "q \<le> 10 ^ 200"
  proof -
    show "0 < q" using d0 E0 by (simp add: qv)
    have "(V0 - E) / (4 * E) \<le> 10 ^ 100 / (4 * (1 / 10 ^ 100))"
      using d0 assms(1) by (intro frac_le) simp_all
    then show "q \<le> 10 ^ 200" by (simp add: qv)
  qed
  have f14: "truediv64 (Num Np (Fin (k * k))) (Num Np (Fin (4 * (k0 * k0)))) = Inr (Num Np (Fin q))"
    unfolding q_def using k0b qb by (intro truediv64_np) (simp_all add: q_def)
  have xb: "\<bar>k * ws\<bar> \<le> 10 ^ 200"
  proof -
    have "\<bar>k * ws\<bar> = k * \<bar>ws\<bar>" using kb by (simp add: abs_mult)
    also have "\<dots> \<le> 10 ^ 61 * 10 ^ 91" using kb wsb by (intro mult_mono) simp_all
    also have "\<dots> \<le> 10 ^ 200" by simp
    finally show ?thesis .
  qed
  have f15: "mul64 (Num Np (Fin k)) (Num (join c Py) (Fin ws)) = Num Np (Fin (k * ws))"
    using xb by (simp add: mul64_fin)
  have tail: "truediv64 (py 1)
           (add64 (py 1) (mul64 (Num Np (Fin q)) (pow2_64 (np_sinh64 (Num Np (Fin (k * ws)))))))
         = Inr (Num Np (Fin (if 2 ^ 1024 \<le> (sinh (k * ws))\<^sup>2
                                 \<or> 2 ^ 1024 \<le> 1 + q * (sinh (k * ws))\<^sup>2
                              then 0 else 1 / (1 + q * (sinh (k * ws))\<^sup>2))))"
    using qb by (rule saturated_tail)
  have att: "q * (sinh (wavenumber (V0 - E) * (w / 10 ^ 9)))\<^sup>2 = attenuation V0 E w"
    by (simp add: attenuation_def q_def k_def k0_def power2_eq_square)
  have arg: "k * ws = wavenumber (V0 - E) * (w / 10 ^ 9)"
    by (simp add: k_def ws_def)
  have "transmission_coefficient_b64 (Num a (Fin V0)) (Num b (Fin E)) (Num c (Fin w))
      = Inr (Num Np (Fin (if 2 ^ 1024 \<le> (sinh (k * ws))\<^sup>2
                                 \<or> 2 ^ 1024 \<le> 1 + q * (sinh (k * ws))\<^sup>2
                              then 0 else 1 / (1 + q * (sinh (k * ws))\<^sup>2))))"
    unfolding transmission_coefficient_b64_def Let_def
    by (simp only: f1 f2 f3 f4 if_True f5 f6 f7 f8 f9 f10 f11 f12 f13 f14 f15 sum.case tail)
  then show ?thesis
    by (simp only: arg att saturates_def)
qed

lemma b64_agrees:
  assumes "1 / 10 ^ 100 \<le> E" and "E < V0" and "V0 \<le> 10 ^ 100" and "\<bar>w\<bar> \<le> 10 ^ 100"
    and "\<not> saturates V0 E w"
  shows "transmission_coefficient_b64 (Num a (Fin V0)) (Num b (Fin E)) (Num c (Fin w))
           = transmission_coefficient (Num a (Fin V0)) (Num b (Fin E)) (Num c (Fin w))"
proof -
  have E0: "0 < E" using assms(1) by (rule less_le_trans [rotated]) simp
  show ?thesis
    using in_range_values [OF assms(1-4)] sub_barrier [OF E0 assms(2)] assms(5) by simp
qed

lemma saturates_even: "saturates V0 E (- w) = saturates V0 E w"
  by (simp add: saturates_def attenuation_even)



lemma recip_unit:
  assumes "0 \<le> (x::real)"
  shows "0 \<le> 1 / (1 + x)" and "1 / (1 + x) \<le> 1"
  using assms by (simp_all add: field_simps)

lemma value_unit:
  "0 \<le> (if saturates V0 E w then 0 else 1 / (1 + attenuation V0 E w))"
  "(if saturates V0 E w then 0 else 1 / (1 + attenuation V0 E w)) \<le> 1"
  using recip_unit [OF attenuation_nonneg [of V0 E w]] by simp_all


subsection \<open>Wide and thin barriers\<close>

lemma wavenumber_one_lower: "10 ^ 9 \<le> wavenumber 1"
proof -
  have "2\<^sup>2 \<le> pi\<^sup>2" using pi_ge_two by (intro power_mono) simp_all
  then have p: "4 \<le> pi\<^sup>2" by simp
  have c: "0 \<le> 8 * ME * e / h\<^sup>2" using ME_pos e_pos by simp
  have "(10 ^ 9)\<^sup>2 \<le> 8 * ME * e / h\<^sup>2 * 4"
    by (simp add: ME_def m_e_def e_def h_def power2_eq_square)
  also have "\<dots> \<le> 8 * ME * e / h\<^sup>2 * pi\<^sup>2" using p c by (rule mult_left_mono)
  also have "\<dots> = (wavenumber 1)\<^sup>2"
    by (simp add: wavenumber_sq HBAR_def power_divide power_mult_distrib)
  finally have "(10 ^ 9)\<^sup>2 \<le> (wavenumber 1)\<^sup>2" .
  moreover have "0 \<le> wavenumber 1" using wavenumber_pos [of 1] by simp
  ultimately show ?thesis by (rule power2_le_imp_le)
qed

lemma half_difference_lower:
  "s = (x - m) / 2 \<Longrightarrow> q \<le> (p - 1) / 2 \<Longrightarrow> p \<le> x \<Longrightarrow> m \<le> 1 \<Longrightarrow> q \<le> (s::real)"
  by (simp add: field_simps)

lemma sinh_thousand_lower: "2 ^ 512 \<le> sinh (1000::real)"
proof -
  have "(2::real) \<le> exp 1" using exp_ge_add_one_self [of 1] by simp
  then have "(2::real) ^ 1000 \<le> exp 1 ^ 1000" by (intro power_mono) simp_all
  also have "\<dots> = exp (1000::real)" using exp_of_nat_mult [of 1000 "1::real"] by simp
  finally have big: "(2::real) ^ 1000 \<le> exp 1000" .
  have small: "exp (- 1000::real) \<le> 1" by simp
  have "sinh (1000::real) = (exp 1000 - exp (- 1000)) / 2" by (simp add: sinh_field_def)
  moreover have "(2::real) ^ 512 \<le> (2 ^ 1000 - 1) / 2" by simp
  ultimately show ?thesis using big small by (rule half_difference_lower)
qed

lemma saturates_thousand: "saturates 2 1 1000"
proof -
  have "1000 \<le> wavenumber 1 * (1000 / 10 ^ 9)" using wavenumber_one_lower by simp
  then have "sinh 1000 \<le> sinh (wavenumber 1 * (1000 / 10 ^ 9))" by simp
  then have lo: "2 ^ 512 \<le> sinh (wavenumber 1 * (1000 / 10 ^ 9))"
    using sinh_thousand_lower by linarith
  have "(2 ^ 512)\<^sup>2 \<le> (sinh (wavenumber 1 * (1000 / 10 ^ 9)))\<^sup>2"
    using lo by (intro power_mono) simp_all
  then have "2 ^ 1024 \<le> (sinh (wavenumber (2 - 1) * (1000 / 10 ^ 9)))\<^sup>2" by simp
  then show ?thesis unfolding saturates_def by (rule disjI1)
qed




subsection \<open>Claims about the range of the transmission\<close>







text \<open>
  C9 as stated fails in its bound. At \<open>V0 = 2\<close>, \<open>E = 1\<close> the width \<open>-1000\<close> nm gives
  exactly \<open>0.0\<close>, which is not in \<open>(0, 1]\<close>: the hyperbolic sine overflows to minus
  infinity and its square to infinity.
\<close>

theorem negative_wide_barrier_counterexample:
  "transmission_coefficient_b64 (py 2) (py 1) (py (- 1000)) = Inr (Num Np (Fin 0))"
proof -
  have s: "saturates 2 1 (- 1000)" using saturates_thousand by (simp only: saturates_even)
  have "transmission_coefficient_b64 (Num Py (Fin 2)) (Num Py (Fin 1)) (Num Py (Fin (- 1000)))
      = Inr (Num Np (Fin (if saturates 2 1 (- 1000) then 0
                           else 1 / (1 + attenuation 2 1 (- 1000)))))"
    by (rule in_range_values) simp_all
  then show ?thesis using s by (simp add: py_def)
qed

text \<open>
  C9, amended. In the sub-barrier case the transmission is an even function of the
  width: for \<open>1e-100 \<le> E < V0 \<le> 1e100\<close> and every real \<open>w\<close> of magnitude at most \<open>1e100\<close>,
  the widths \<open>w\<close> and \<open>- w\<close> give the same result, and the result is a finite number in
  the closed interval \<open>[0, 1]\<close>, for negative widths too.
\<close>

theorem transmission_b64_even_in_width:
  assumes "1 / 10 ^ 100 \<le> E" and "E < V0" and "V0 \<le> 10 ^ 100" and "\<bar>w\<bar> \<le> 10 ^ 100"
  shows "transmission_coefficient_b64 (Num a (Fin V0)) (Num b (Fin E)) (Num c (Fin (- w)))
           = transmission_coefficient_b64 (Num a (Fin V0)) (Num b (Fin E)) (Num c (Fin w)) \<and>
         (\<exists>k t. transmission_coefficient_b64 (Num a (Fin V0)) (Num b (Fin E)) (Num c (Fin (- w)))
                = Inr (Num k (Fin t)) \<and> 0 \<le> t \<and> t \<le> 1)"
proof -
  have m: "\<bar>- w\<bar> \<le> 10 ^ 100" using assms(4) by simp
  have neg: "transmission_coefficient_b64 (Num a (Fin V0)) (Num b (Fin E)) (Num c (Fin (- w)))
      = Inr (Num Np (Fin (if saturates V0 E w then 0 else 1 / (1 + attenuation V0 E w))))"
    using in_range_values [OF assms(1-3) m] by (simp only: saturates_even attenuation_even)
  show ?thesis
    using neg in_range_values [OF assms] value_unit [of V0 E w] by simp
qed

theorem transmission_b64_even_in_width_witness:
  "(1::real) / 10 ^ 100 \<le> 1 \<and> (1::real) < 2 \<and> (2::real) \<le> 10 ^ 100 \<and>
   \<bar>1000::real\<bar> \<le> 10 ^ 100 \<and>
   transmission_coefficient_b64 (Num Py (Fin 2)) (Num Py (Fin 1)) (Num Py (Fin (- 1000)))
     = transmission_coefficient_b64 (Num Py (Fin 2)) (Num Py (Fin 1)) (Num Py (Fin 1000)) \<and>
   (\<exists>k t. transmission_coefficient_b64 (Num Py (Fin 2)) (Num Py (Fin 1)) (Num Py (Fin (- 1000)))
          = Inr (Num k (Fin t)) \<and> 0 \<le> t \<and> t \<le> 1)"
proof -
  have b: "(1::real) / 10 ^ 100 \<le> 1" "(1::real) < 2" "(2::real) \<le> 10 ^ 100"
    "\<bar>1000::real\<bar> \<le> 10 ^ 100" by simp_all
  show ?thesis
    using b transmission_b64_even_in_width [OF b, of Py Py Py] by blast
qed

section \<open>Properties of the parameter sweeps\<close>

lemma linspace_length: "length (linspace a b n) = n"
  by (simp add: linspace_def)

lemma linspace_nth:
  "i < n \<Longrightarrow> linspace a b n ! i = Fin (a + real i * ((b - a) / real (n - 1)))"
  by (simp add: linspace_def)

subsection \<open>The list comprehensions\<close>

lemma comprehension_total:
  assumes "\<And>x. \<exists>v. f x = Inr v"
  shows "\<exists>ts. comprehension f xs = Inr ts \<and> length ts = length xs \<and>
              (\<forall>i<length xs. f (Num Np (xs ! i)) = Inr (ts ! i))"
proof (induction xs)
  case Nil
  show ?case by simp
next
  case (Cons x xs)
  obtain t where t: "f (Num Np x) = Inr t" using assms by blast
  obtain ts where ts: "comprehension f xs = Inr ts" "length ts = length xs"
    "\<forall>i<length xs. f (Num Np (xs ! i)) = Inr (ts ! i)" using Cons.IH by blast
  have "\<forall>i<length (x # xs). f (Num Np ((x # xs) ! i)) = Inr ((t # ts) ! i)"
    using t ts(3) by (simp add: nth_Cons split: nat.split)
  then show ?case using t ts by simp
qed

subsection \<open>The nested loops\<close>

text \<open>No call raises, so each loop is a fold of its body over the indices.\<close>

lemma for_j_fold:
  "for_j V E W i js m = Inr (fold (\<lambda>j m. m[i := (m ! i)[j := cell V E W i j]]) js m)"
proof (induction js arbitrary: m)
  case Nil
  show ?case by simp
next
  case (Cons j js)
  obtain t where t: "transmission_coefficient (getitem V i j) E (getitem W i j) = Inr t"
    using never_raises by blast
  show ?case by (simp add: t Cons.IH setitem_def cell_def)
qed

lemma for_i_fold:
  "for_i V E W is m =
     Inr (fold (\<lambda>i m. fold (\<lambda>j m. m[i := (m ! i)[j := cell V E W i j]]) [0..<shape1 V] m) is m)"
  by (induction "is" arbitrary: m) (simp_all add: for_j_fold)

lemma fold_row_update:
  "i < length m \<Longrightarrow>
   fold (\<lambda>j m. m[i := (m ! i)[j := g j]]) js m = m[i := fold (\<lambda>j r. r[j := g j]) js (m ! i)]"
  by (induction js arbitrary: m) simp_all

lemma fold_update_length: "length (fold (\<lambda>j r. r[j := g j]) js r) = length r"
  by (induction js arbitrary: r) simp_all

lemma fold_update_nth:
  "j < length r \<Longrightarrow> fold (\<lambda>j r. r[j := g j]) js r ! j = (if j \<in> set js then g j else r ! j)"
  by (induction js arbitrary: r) (auto simp: nth_list_update)

lemma fold_rows_length:
  "length (fold (\<lambda>i m. m[i := F i (m ! i)]) is m) = length m"
  by (induction "is" arbitrary: m) simp_all

lemma fold_rows_nth:
  "distinct is \<Longrightarrow> i < length m \<Longrightarrow>
   fold (\<lambda>i m. m[i := F i (m ! i)]) is m ! i = (if i \<in> set is then F i (m ! i) else m ! i)"
proof (induction "is" arbitrary: m)
  case Nil
  show ?case by simp
next
  case (Cons a as)
  show ?case
  proof (cases "i = a")
    case True
    then show ?thesis using Cons by simp
  next
    case False
    then show ?thesis using Cons by simp
  qed
qed

lemma fold_grid_rows:
  "\<forall>i\<in>set is. i < length m \<Longrightarrow>
   fold (\<lambda>i m. fold (\<lambda>j m. m[i := (m ! i)[j := c i j]]) js m) is m
     = fold (\<lambda>i m. m[i := (\<lambda>i r. fold (\<lambda>j r. r[j := c i j]) js r) i (m ! i)]) is m"
proof (induction "is" arbitrary: m)
  case Nil
  show ?case by simp
next
  case (Cons a as)
  have a: "a < length m" using Cons.prems by simp
  have "\<forall>i\<in>set as. i < length (m[a := fold (\<lambda>j r. r[j := c a j]) js (m ! a)])"
    using Cons.prems by simp
  then show ?case using Cons.IH by (simp add: fold_row_update [OF a])
qed

lemma grid_cell:
  assumes "length m = R" and "\<forall>r\<in>set m. length r = C" and "i < R" and "j < C"
  shows "fold (\<lambda>i m. fold (\<lambda>j m. m[i := (m ! i)[j := c i j]]) [0..<C] m) [0..<R] m ! i ! j
           = c i j"
    and "length (fold (\<lambda>i m. fold (\<lambda>j m. m[i := (m ! i)[j := c i j]]) [0..<C] m) [0..<R] m) = R"
    and "length (fold (\<lambda>i m. fold (\<lambda>j m. m[i := (m ! i)[j := c i j]]) [0..<C] m) [0..<R] m ! i) = C"
proof -
  let ?F = "\<lambda>i r. fold (\<lambda>j r. r[j := c i j]) [0..<C] r"
  have eq: "fold (\<lambda>i m. fold (\<lambda>j m. m[i := (m ! i)[j := c i j]]) [0..<C] m) [0..<R] m
      = fold (\<lambda>i m. m[i := ?F i (m ! i)]) [0..<R] m"
    using assms(1) by (intro fold_grid_rows) simp
  have i: "i < length m" using assms by simp
  have row: "fold (\<lambda>i m. m[i := ?F i (m ! i)]) [0..<R] m ! i = ?F i (m ! i)"
    using fold_rows_nth [of "[0..<R]" i m ?F] i assms(3) by simp
  have len: "length (m ! i) = C" using assms(2) i by simp
  show "fold (\<lambda>i m. fold (\<lambda>j m. m[i := (m ! i)[j := c i j]]) [0..<C] m) [0..<R] m ! i ! j
           = c i j"
    using assms(4) len by (simp add: eq row fold_update_nth)
  show "length (fold (\<lambda>i m. fold (\<lambda>j m. m[i := (m ! i)[j := c i j]]) [0..<C] m) [0..<R] m) = R"
    using assms(1) fold_rows_length [of ?F "[0..<R]" m] by (simp add: eq)
  show "length (fold (\<lambda>i m. fold (\<lambda>j m. m[i := (m ! i)[j := c i j]]) [0..<C] m) [0..<R] m ! i) = C"
    using len by (simp add: eq row fold_update_length)
qed

subsection \<open>Claims about the sweeps\<close>

text \<open>
  C5. The 2-D sweep returns a matrix of 100 rows of 100 cells. Its cell \<open>(i, j)\<close> holds
  the value of \<open>transmission_coefficient\<close> called directly on the \<open>j\<close>-th of the 100
  evenly spaced heights of \<open>[0.5, 10]\<close>, the caller's electron energy and the \<open>i\<close>-th of
  the 100 evenly spaced widths of \<open>[0.1, 2]\<close>: rows follow the width, columns the height,
  and no cell depends on another.
\<close>

theorem grid_sweep_pointwise:
  assumes "i < 100" and "j < 100"
  shows "\<exists>tm s. plot_transmission_coefficient E_ev V0_ev width_nm = Inr tm \<and>
           length tm = 100 \<and> length (tm ! i) = 100 \<and>
           transmission_coefficient
             (Num Np (Fin (1 / 2 + real j * ((10 - 1 / 2) / 99)))) E_ev
             (Num Np (Fin (1 / 10 + real i * ((2 - 1 / 10) / 99)))) = Inr s \<and>
           tm ! i ! j = float64 s"
proof -
  define V0_range where "V0_range = linspace (1 / 2) 10 100"
  define width_range where "width_range = linspace (1 / 10) 2 100"
  define V0_mesh where "V0_mesh = map (\<lambda>y. V0_range) width_range"
  define width_mesh where "width_mesh = map (\<lambda>y. map (\<lambda>x. y) V0_range) width_range"
  define m0 where "m0 = zeros_like V0_mesh"
  define c where "c = cell V0_mesh E_ev width_mesh"
  define tm where
    "tm = fold (\<lambda>i m. fold (\<lambda>j m. m[i := (m ! i)[j := c i j]]) [0..<100] m) [0..<100] m0"
  have lV: "length V0_range = 100" and lW: "length width_range = 100"
    by (simp_all add: V0_range_def width_range_def linspace_length)
  have s0: "shape0 V0_mesh = 100" by (simp add: shape0_def V0_mesh_def lW)
  have s1: "shape1 V0_mesh = 100"
  proof -
    obtain y ys where "width_range = y # ys" using lW by (cases width_range) simp_all
    then show ?thesis by (simp add: shape1_def V0_mesh_def lV)
  qed
  have run: "plot_transmission_coefficient E_ev V0_ev width_nm = Inr tm"
    unfolding plot_transmission_coefficient_def Let_def meshgrid_def
    by (simp add: V0_range_def [symmetric] width_range_def [symmetric]
        V0_mesh_def [symmetric] width_mesh_def [symmetric] m0_def [symmetric]
        s0 s1 for_i_fold tm_def c_def)
  have m0: "length m0 = 100" "\<forall>r\<in>set m0. length r = 100"
    by (auto simp: m0_def zeros_like_def V0_mesh_def lV lW)
  have cellij: "tm ! i ! j = c i j" and len: "length tm = 100" and leni: "length (tm ! i) = 100"
    unfolding tm_def using grid_cell [OF m0 assms] by simp_all
  have gV: "getitem V0_mesh i j = Num Np (Fin (1 / 2 + real j * ((10 - 1 / 2) / 99)))"
    using assms lW by (simp add: getitem_def V0_mesh_def V0_range_def linspace_nth)
  have gW: "getitem width_mesh i j = Num Np (Fin (1 / 10 + real i * ((2 - 1 / 10) / 99)))"
    using assms lV lW
    by (simp add: getitem_def width_mesh_def) (simp add: width_range_def linspace_nth)
  obtain s where s: "transmission_coefficient
             (Num Np (Fin (1 / 2 + real j * ((10 - 1 / 2) / 99)))) E_ev
             (Num Np (Fin (1 / 10 + real i * ((2 - 1 / 10) / 99)))) = Inr s"
    using never_raises by blast
  have "c i j = float64 s"
    unfolding c_def cell_def gV gW using s by simp
  then show ?thesis using run len leni s cellij by simp
qed

theorem grid_sweep_pointwise_witness:
  "(3::nat) < 100 \<and> (7::nat) < 100 \<and>
   (\<exists>tm s. plot_transmission_coefficient (Num Py (Fin 1)) (Num Py (Fin 2)) (Num Py (Fin 1))
             = Inr tm \<and>
           length tm = 100 \<and> length (tm ! 3) = 100 \<and>
           transmission_coefficient
             (Num Np (Fin (1 / 2 + real 7 * ((10 - 1 / 2) / 99)))) (Num Py (Fin 1))
             (Num Np (Fin (1 / 10 + real 3 * ((2 - 1 / 10) / 99)))) = Inr s \<and>
           tm ! 3 ! 7 = float64 s)"
proof -
  have h: "(3::nat) < 100" "(7::nat) < 100" by simp_all
  show ?thesis
    using h grid_sweep_pointwise [OF h, of "Num Py (Fin 1)" "Num Py (Fin 2)" "Num Py (Fin 1)"]
    by blast
qed

text \<open>
  C8. Each of the three 1-D sweeps returns 100 values. The \<open>i\<close>-th value of the first is
  \<open>transmission_coefficient\<close> at the \<open>i\<close>-th of 100 evenly spaced heights of \<open>[0.1, 10]\<close>,
  of the second at the \<open>i\<close>-th of 100 evenly spaced widths of \<open>[0.1, 2]\<close>, of the third at
  the \<open>i\<close>-th of 100 evenly spaced energies of \<open>[0.1, 10]\<close>; the other two arguments are
  the caller's.
\<close>

theorem line_sweeps_pointwise:
  assumes "i < 100"
  shows "\<exists>t1 t2 t3. plot_transmission_variations E_ev V0_fixed width_fixed = Inr (t1, t2, t3) \<and>
           length t1 = 100 \<and> length t2 = 100 \<and> length t3 = 100 \<and>
           transmission_coefficient (Num Np (Fin (1 / 10 + real i * ((10 - 1 / 10) / 99))))
             E_ev width_fixed = Inr (t1 ! i) \<and>
           transmission_coefficient V0_fixed E_ev
             (Num Np (Fin (1 / 10 + real i * ((2 - 1 / 10) / 99)))) = Inr (t2 ! i) \<and>
           transmission_coefficient V0_fixed
             (Num Np (Fin (1 / 10 + real i * ((10 - 1 / 10) / 99)))) width_fixed = Inr (t3 ! i)"
proof -
  obtain t1 where t1: "comprehension (\<lambda>V0. transmission_coefficient V0 E_ev width_fixed)
        (linspace (1 / 10) 10 100) = Inr t1" "length t1 = 100"
      "\<forall>i<100. transmission_coefficient (Num Np (linspace (1 / 10) 10 100 ! i)) E_ev width_fixed
         = Inr (t1 ! i)"
    using comprehension_total [of "\<lambda>V0. transmission_coefficient V0 E_ev width_fixed"
        "linspace (1 / 10) 10 100"] never_raises
    by (auto simp: linspace_length)
  obtain t2 where t2: "comprehension (\<lambda>width. transmission_coefficient V0_fixed E_ev width)
        (linspace (1 / 10) 2 100) = Inr t2" "length t2 = 100"
      "\<forall>i<100. transmission_coefficient V0_fixed E_ev (Num Np (linspace (1 / 10) 2 100 ! i))
         = Inr (t2 ! i)"
    using comprehension_total [of "\<lambda>width. transmission_coefficient V0_fixed E_ev width"
        "linspace (1 / 10) 2 100"] never_raises
    by (auto simp: linspace_length)
  obtain t3 where t3: "comprehension (\<lambda>E_val. transmission_coefficient V0_fixed E_val width_fixed)
        (linspace (1 / 10) 10 100) = Inr t3" "length t3 = 100"
      "\<forall>i<100. transmission_coefficient V0_fixed (Num Np (linspace (1 / 10) 10 100 ! i)) width_fixed
         = Inr (t3 ! i)"
    using comprehension_total [of "\<lambda>E_val. transmission_coefficient V0_fixed E_val width_fixed"
        "linspace (1 / 10) 10 100"] never_raises
    by (auto simp: linspace_length)
  have run: "plot_transmission_variations E_ev V0_fixed width_fixed = Inr (t1, t2, t3)"
    by (simp add: plot_transmission_variations_def Let_def t1(1) t2(1) t3(1))
  have p1: "linspace (1 / 10) 10 100 ! i = Fin (1 / 10 + real i * ((10 - 1 / 10) / 99))"
    using assms by (simp add: linspace_nth)
  have p2: "linspace (1 / 10) 2 100 ! i = Fin (1 / 10 + real i * ((2 - 1 / 10) / 99))"
    using assms by (simp add: linspace_nth)
  have c1: "transmission_coefficient (Num Np (Fin (1 / 10 + real i * ((10 - 1 / 10) / 99))))
             E_ev width_fixed = Inr (t1 ! i)"
    using t1(3) assms by (simp only: p1 [symmetric])
  have c2: "transmission_coefficient V0_fixed E_ev
             (Num Np (Fin (1 / 10 + real i * ((2 - 1 / 10) / 99)))) = Inr (t2 ! i)"
    using t2(3) assms by (simp only: p2 [symmetric])
  have c3: "transmission_coefficient V0_fixed
             (Num Np (Fin (1 / 10 + real i * ((10 - 1 / 10) / 99)))) width_fixed = Inr (t3 ! i)"
    using t3(3) assms by (simp only: p1 [symmetric])
  show ?thesis
    using run t1(2) t2(2) t3(2) c1 c2 c3 by blast
qed

theorem line_sweeps_pointwise_witness:
  "(5::nat) < 100 \<and>
   (\<exists>t1 t2 t3. plot_transmission_variations (Num Py (Fin 1)) (Num Py (Fin 2)) (Num Py (Fin 1))
                 = Inr (t1, t2, t3) \<and>
           length t1 = 100 \<and> length t2 = 100 \<and> length t3 = 100 \<and>
           transmission_coefficient (Num Np (Fin (1 / 10 + real 5 * ((10 - 1 / 10) / 99))))
             (Num Py (Fin 1)) (Num Py (Fin 1)) = Inr (t1 ! 5) \<and>
           transmission_coefficient (Num Py (Fin 2)) (Num Py (Fin 1))
             (Num Np (Fin (1 / 10 + real 5 * ((2 - 1 / 10) / 99)))) = Inr (t2 ! 5) \<and>
           transmission_coefficient (Num Py (Fin 2))
             (Num Np (Fin (1 / 10 + real 5 * ((10 - 1 / 10) / 99)))) (Num Py (Fin 1))
               = Inr (t3 ! 5))"
proof -
  have h: "(5::nat) < 100" by simp
  show ?thesis
    using h line_sweeps_pointwise [OF h, of "Num Py (Fin 1)" "Num Py (Fin 2)" "Num Py (Fin 1)"]
    by blast
qed

end
